theory Spec2Isabelle
  imports Main
begin

section \<open>Data model of \<open>bot.py\<close>\<close>

text \<open>
  The handler \<open>track_channel_member\<close> reads objects of the messaging library. Only the
  attributes the handler reads are kept. An attribute that holds an object may be
  \<open>None\<close> in Python; reading through \<open>None\<close> raises \<open>AttributeError\<close>, and the model keeps
  that branch: such attributes are \<open>option\<close> fields. The library's decoder fills all of
  them, so the objects it delivers are the ones with every field \<open>Some\<close>.
\<close>

text \<open>
  The enumeration \<open>telegram.constants.ChatMemberStatus\<close> is library code and not part of
  the sources. The imports at lines 13-20 (\<open>telegram.ext.Application\<close>,
  \<open>telegram.constants\<close>) need python-telegram-bot 20 or later, whose enumeration has six
  members: \<open>ADMINISTRATOR\<close>, \<open>OWNER\<close>, \<open>BANNED\<close>, \<open>LEFT\<close>, \<open>MEMBER\<close> and \<open>RESTRICTED\<close>. The
  status the spec calls Kicked is the member \<open>BANNED\<close>, whose value is the string
  \<open>kicked\<close>. The statuses of a notification are these six values.
\<close>

datatype ChatMemberStatus = OWNER | ADMINISTRATOR | MEMBER | RESTRICTED | LEFT | BANNED

record User =
  user_id :: int
  is_bot :: bool
  full_name :: string
  username :: "string option"

record ChatMember =
  status :: ChatMemberStatus
  user :: "User option"

record Chat =
  chat_id :: int

record ChatMemberUpdated =
  chat :: "Chat option"
  old_chat_member :: "ChatMember option"
  new_chat_member :: "ChatMember option"

record Update =
  my_chat_member :: "ChatMemberUpdated option"
  chat_member :: "ChatMemberUpdated option"

text \<open>
  Exceptions are values. Every constructor stands for an instance of Python's
  \<open>Exception\<close>, which is what the two \<open>except Exception\<close> clauses of the handler catch.
  The texts of the messages are Russian in the source; the model keeps a short English tag.
\<close>

datatype exn =
  AttributeError string
| TelegramError string
| ValueError string

text \<open>
  What the handler does to the outside world, in order: the remote ban command and the
  records handed to the logger. A log record keeps the values the source interpolates
  into its f-string, not the formatted text; the flag is \<open>exc_info\<close>.
\<close>

datatype level = INFO | ERROR

datatype message =
  Banned User ChatMemberStatus ChatMemberStatus
| BanFailed User exn
| StatusChange User ChatMemberStatus ChatMemberStatus
| HandlerError exn
| UnhandledError exn
| Starting
| Monitoring int
| Started

datatype effect =
  BanChatMember int int
| Log level message bool

text \<open>
  The backend's answer to \<open>context.bot.ban_chat_member(chat_id=..., user_id=...)\<close>:
  \<open>Inl e\<close> when the call raises \<open>e\<close>, \<open>Inr b\<close> when it returns the boolean \<open>b\<close>.
\<close>

type_synonym bot = "int \<Rightarrow> int \<Rightarrow> exn + bool"

section \<open>The handler \<open>track_channel_member\<close>\<close>

text \<open>Line 64: \<open>update.my_chat_member or update.chat_member\<close>.\<close>

definition changed_member :: "Update \<Rightarrow> ChatMemberUpdated option" where
  "changed_member update =
     (case my_chat_member update of
        Some r \<Rightarrow> Some r
      | None \<Rightarrow> chat_member update)"

text \<open>
  The expression \<open>ChatMemberStatus.NAME\<close>: the member of that name, or \<open>AttributeError\<close>
  when the enumeration has none. The source writes \<open>ChatMemberStatus.KICKED\<close> at line 85,
  a name the enumeration does not have.
\<close>

definition status_attr :: "string \<Rightarrow> exn + ChatMemberStatus" where
  "status_attr name =
     (if name = ''ADMINISTRATOR'' then Inr ADMINISTRATOR
      else if name = ''OWNER'' then Inr OWNER
      else if name = ''BANNED'' then Inr BANNED
      else if name = ''LEFT'' then Inr LEFT
      else if name = ''MEMBER'' then Inr MEMBER
      else if name = ''RESTRICTED'' then Inr RESTRICTED
      else Inl (AttributeError name))"

text \<open>A list display of such expressions, evaluated from left to right.\<close>

fun status_list :: "string list \<Rightarrow> exn + ChatMemberStatus list" where
  "status_list [] = Inr []"
| "status_list (name # names) =
     (case status_attr name of
        Inl e \<Rightarrow> Inl e
      | Inr s \<Rightarrow>
         (case status_list names of
            Inl e \<Rightarrow> Inl e
          | Inr ss \<Rightarrow> Inr (s # ss)))"

text \<open>
  Lines 83-86: the local variable \<open>unsubscribed\<close>. Python's \<open>and\<close> evaluates its second
  operand, and with it the second list, only when the first operand is true.
\<close>

definition unsubscribed :: "ChatMemberStatus \<Rightarrow> ChatMemberStatus \<Rightarrow> exn + bool" where
  "unsubscribed old_status new_status =
     (case status_list [''MEMBER'', ''ADMINISTRATOR'', ''OWNER''] of
        Inl e \<Rightarrow> Inl e
      | Inr subscribed \<Rightarrow>
         if old_status \<in> set subscribed
         then (case status_list [''LEFT'', ''KICKED''] of
                 Inl e \<Rightarrow> Inl e
               | Inr gone \<Rightarrow> Inr (new_status \<in> set gone))
         else Inr False)"

text \<open>
  Lines 89-105: the inner \<open>try\<close>. The ban command is issued once. When the call raises,
  line 102 catches the exception and line 103 logs it; when the call returns, the value
  it returns is dropped and line 96 logs the ban. Nothing is raised out of this block.
\<close>

definition ban_user ::
  "int \<Rightarrow> bot \<Rightarrow> User \<Rightarrow> ChatMemberStatus \<Rightarrow> ChatMemberStatus
     \<Rightarrow> effect list \<times> exn option" where
  "ban_user CHANNEL_ID ban usr old_status new_status =
     (case ban CHANNEL_ID (user_id usr) of
        Inr b \<Rightarrow>
          ([BanChatMember CHANNEL_ID (user_id usr),
            Log INFO (Banned usr old_status new_status) False], None)
      | Inl e \<Rightarrow>
          ([BanChatMember CHANNEL_ID (user_id usr),
            Log ERROR (BanFailed usr e) False], None))"

text \<open>
  Lines 69-112: what the handler does with the record it has picked. The result is the
  effects so far and the exception raised, if any.
\<close>

definition handle_record ::
  "int \<Rightarrow> bot \<Rightarrow> ChatMemberUpdated \<Rightarrow> effect list \<times> exn option" where
  "handle_record CHANNEL_ID ban result =
     (case chat result of
        None \<Rightarrow> ([], Some (AttributeError ''id''))
      | Some c \<Rightarrow>
         if chat_id c \<noteq> CHANNEL_ID then ([], None)
         else
           (case old_chat_member result of
              None \<Rightarrow> ([], Some (AttributeError ''status''))
            | Some old_member \<Rightarrow>
               (case new_chat_member result of
                  None \<Rightarrow> ([], Some (AttributeError ''status''))
                | Some new_member \<Rightarrow>
                   (case user new_member of
                      None \<Rightarrow> ([], Some (AttributeError ''is_bot''))
                    | Some usr \<Rightarrow>
                       if is_bot usr then ([], None)
                       else
                         (case unsubscribed (status old_member) (status new_member) of
                            Inl e \<Rightarrow> ([], Some e)
                          | Inr True \<Rightarrow>
                              ban_user CHANNEL_ID ban usr
                                (status old_member) (status new_member)
                          | Inr False \<Rightarrow>
                              if status old_member \<noteq> status new_member
                              then ([Log INFO (StatusChange usr
                                      (status old_member) (status new_member)) False], None)
                              else ([], None))))))"

text \<open>Lines 63-112: the body of the outer \<open>try\<close>.\<close>

definition track_body :: "int \<Rightarrow> bot \<Rightarrow> Update \<Rightarrow> effect list \<times> exn option" where
  "track_body CHANNEL_ID ban update =
     (case changed_member update of
        None \<Rightarrow> ([], None)
      | Some result \<Rightarrow> handle_record CHANNEL_ID ban result)"

text \<open>
  Lines 62 and 114-115: the outer \<open>try ... except Exception\<close>, applied to what its body
  did. The second component is the exception that leaves the handler, if any.
\<close>

definition logged :: "effect list \<times> exn option \<Rightarrow> effect list \<times> exn option" where
  "logged outcome =
     (case outcome of
        (effects, Some e) \<Rightarrow> (effects @ [Log ERROR (HandlerError e) True], None)
      | (effects, None) \<Rightarrow> (effects, None))"

definition track_channel_member :: "int \<Rightarrow> bot \<Rightarrow> Update \<Rightarrow> effect list \<times> exn option" where
  "track_channel_member CHANNEL_ID ban update = logged (track_body CHANNEL_ID ban update)"

text \<open>The ban commands and the log records of a trace.\<close>

fun is_ban :: "effect \<Rightarrow> bool" where
  "is_ban (BanChatMember _ _) = True"
| "is_ban (Log _ _ _) = False"

definition ban_commands :: "effect list \<Rightarrow> effect list" where
  "ban_commands effects = filter is_ban effects"

definition log_records :: "effect list \<Rightarrow> effect list" where
  "log_records effects = filter (\<lambda>x. \<not> is_ban x) effects"

section \<open>The dispatch loop\<close>

text \<open>
  Modelled from the spec: the loop that feeds the handler is the library's
  \<open>Application.run_polling\<close> and is not part of the sources. Notifications are handled
  one at a time in the order delivered, each with the backend's answer for that
  delivery. The handler registered at line 158, \<open>error_handler\<close> (lines 129-131), logs
  an exception that leaves a handler; the model then takes the worst case and stops the
  loop with that exception.
\<close>

fun dispatch :: "int \<Rightarrow> (bot \<times> Update) list \<Rightarrow> effect list \<times> exn option" where
  "dispatch CHANNEL_ID [] = ([], None)"
| "dispatch CHANNEL_ID ((ban, update) # rest) =
     (case track_channel_member CHANNEL_ID ban update of
        (effects, Some e) \<Rightarrow> (effects @ [Log ERROR (UnhandledError e) True], Some e)
      | (effects, None) \<Rightarrow>
         (case dispatch CHANNEL_ID rest of
            (effects', r) \<Rightarrow> (effects @ effects', r)))"

section \<open>Startup: lines 37-46 and \<open>main\<close>\<close>

text \<open>
  \<open>os.getenv\<close> gives \<open>None\<close> for a variable that is not set and its string otherwise.
  Python's \<open>not x\<close> holds for \<open>None\<close> and for the empty string.
\<close>

definition falsy :: "string option \<Rightarrow> bool" where
  "falsy x = (case x of None \<Rightarrow> True | Some s \<Rightarrow> s = [])"

text \<open>
  Lines 40-46. The builtin \<open>int\<close> is a parameter: \<open>parse_int s = None\<close> stands for
  \<open>int(s)\<close> raising \<open>ValueError\<close>.
\<close>

definition load_config ::
  "(string \<Rightarrow> int option) \<Rightarrow> string option \<Rightarrow> string option \<Rightarrow> exn + (string \<times> int)" where
  "load_config parse_int BOT_TOKEN CHANNEL_ID =
     (if falsy BOT_TOKEN \<or> falsy CHANNEL_ID
      then Inl (ValueError ''BOT_TOKEN and CHANNEL_ID must be given in .env'')
      else
        (case (BOT_TOKEN, CHANNEL_ID) of
           (Some token, Some channel) \<Rightarrow>
             (case parse_int channel of
                None \<Rightarrow> Inl (ValueError ''CHANNEL_ID must be a number'')
              | Some n \<Rightarrow> Inr (token, n))
         | _ \<Rightarrow> Inl (ValueError ''BOT_TOKEN and CHANNEL_ID must be given in .env'')))"

text \<open>
  The module and \<open>main\<close> (lines 134-166). An exception at lines 40-46 ends the process
  before \<open>main\<close> is called: nothing is logged and no delivery is handled. Otherwise
  \<open>main\<close> logs three records and hands the deliveries to the loop.
\<close>

definition main :: "int \<Rightarrow> (bot \<times> Update) list \<Rightarrow> effect list \<times> exn option" where
  "main CHANNEL_ID deliveries =
     (case dispatch CHANNEL_ID deliveries of
        (effects, r) \<Rightarrow>
          ([Log INFO Starting False, Log INFO (Monitoring CHANNEL_ID) False,
            Log INFO Started False] @ effects, r))"

definition program ::
  "(string \<Rightarrow> int option) \<Rightarrow> string option \<Rightarrow> string option \<Rightarrow> (bot \<times> Update) list
     \<Rightarrow> effect list \<times> exn option" where
  "program parse_int BOT_TOKEN CHANNEL_ID deliveries =
     (case load_config parse_int BOT_TOKEN CHANNEL_ID of
        Inl e \<Rightarrow> ([], Some e)
      | Inr (token, channel) \<Rightarrow> main channel deliveries)"

text \<open>
  One value of the parameter \<open>parse_int\<close>, for the examples: a reader of plain decimal
  numerals, that is an optional minus sign before one or more ASCII digits. It is not
  the builtin \<open>int\<close>, which reads more than these; on a plain decimal numeral of ordinary
  length and on text without any digit the two agree.
\<close>

definition digit_val :: "char \<Rightarrow> int option" where
  "digit_val c =
     (let n = (of_char c :: int) in if 48 \<le> n \<and> n \<le> 57 then Some (n - 48) else None)"

fun digits :: "int \<Rightarrow> string \<Rightarrow> int option" where
  "digits acc [] = Some acc"
| "digits acc (c # cs) =
     (case digit_val c of None \<Rightarrow> None | Some v \<Rightarrow> digits (acc * 10 + v) cs)"

definition unsigned :: "string \<Rightarrow> int option" where
  "unsigned s = (case s of [] \<Rightarrow> None | c # cs \<Rightarrow> digits 0 (c # cs))"

definition decimal :: "string \<Rightarrow> int option" where
  "decimal s =
     (case s of
        [] \<Rightarrow> None
      | c # cs \<Rightarrow>
         if c = CHR ''-'' then map_option uminus (unsigned cs)
         else unsigned (c # cs))"

section \<open>Notifications that lack a field\<close>

text \<open>
  A notification lacks a required field when no record is attached, or the attached
  record misses one of the objects the handler reads: the chat, the old member, the new
  member, or the new member's user.
\<close>

definition complete :: "ChatMemberUpdated \<Rightarrow> bool" where
  "complete r =
     (case (chat r, old_chat_member r, new_chat_member r) of
        (Some c, Some old_member, Some new_member) \<Rightarrow>
          (case user new_member of Some u \<Rightarrow> True | None \<Rightarrow> False)
      | _ \<Rightarrow> False)"

definition lacks_field :: "Update \<Rightarrow> bool" where
  "lacks_field update =
     (case changed_member update of None \<Rightarrow> True | Some r \<Rightarrow> \<not> complete r)"

section \<open>Example values\<close>

definition alice :: User where
  "alice = \<lparr>user_id = 42, is_bot = False, full_name = ''Alice'', username = None\<rparr>"

definition robot :: User where
  "robot = \<lparr>user_id = 7, is_bot = True, full_name = ''Robot'', username = Some ''robot''\<rparr>"

definition transition ::
  "int \<Rightarrow> User \<Rightarrow> ChatMemberStatus \<Rightarrow> ChatMemberStatus \<Rightarrow> ChatMemberUpdated" where
  "transition c u old_status new_status =
     \<lparr>chat = Some \<lparr>chat_id = c\<rparr>,
      old_chat_member = Some \<lparr>status = old_status, user = Some u\<rparr>,
      new_chat_member = Some \<lparr>status = new_status, user = Some u\<rparr>\<rparr>"

definition other_member :: "ChatMemberUpdated \<Rightarrow> Update" where
  "other_member r = \<lparr>my_chat_member = None, chat_member = Some r\<rparr>"

definition own_member :: "ChatMemberUpdated \<Rightarrow> Update" where
  "own_member r = \<lparr>my_chat_member = Some r, chat_member = None\<rparr>"

definition no_member :: Update where
  "no_member = \<lparr>my_chat_member = None, chat_member = None\<rparr>"

definition no_user :: "int \<Rightarrow> ChatMemberUpdated" where
  "no_user c =
     \<lparr>chat = Some \<lparr>chat_id = c\<rparr>,
      old_chat_member = Some \<lparr>status = MEMBER, user = None\<rparr>,
      new_chat_member = Some \<lparr>status = LEFT, user = None\<rparr>\<rparr>"

definition no_chat :: ChatMemberUpdated where
  "no_chat = \<lparr>chat = None, old_chat_member = None, new_chat_member = None\<rparr>"

definition ban_succeeds :: bot where
  "ban_succeeds c u = Inr True"



section \<open>Properties\<close>

lemma unsubscribed_eq:
  "unsubscribed old_status new_status =
     (if old_status \<in> {OWNER, ADMINISTRATOR, MEMBER}
      then Inl (AttributeError ''KICKED'') else Inr False)"
  by (cases old_status) (simp_all add: unsubscribed_def status_attr_def)

lemma logged_returns: "snd (logged outcome) = None"
  by (simp add: logged_def split: prod.split option.split)

lemma track_channel_member_returns: "snd (track_channel_member CHANNEL_ID ban update) = None"
  by (simp add: track_channel_member_def logged_returns)

lemma handle_record_raise_no_effect:
  "handle_record CHANNEL_ID ban result = (effects, Some e) \<Longrightarrow> effects = []"
  by (auto simp: handle_record_def ban_user_def unsubscribed_eq
      split: option.splits if_splits sum.splits)

lemma track_body_raise_no_effect:
  "track_body CHANNEL_ID ban update = (effects, Some e) \<Longrightarrow> effects = []"
  by (auto simp: track_body_def split: option.splits dest: handle_record_raise_no_effect)

lemma dispatch_all:
  "dispatch CHANNEL_ID deliveries =
     (concat (map (\<lambda>(ban, update). fst (track_channel_member CHANNEL_ID ban update)) deliveries),
      None)"
proof (induction deliveries)
  case Nil
  show ?case by simp
next
  case (Cons d ds)
  obtain ban update where d: "d = (ban, update)" by (cases d)
  obtain effects where t: "track_channel_member CHANNEL_ID ban update = (effects, None)"
    using track_channel_member_returns [of CHANNEL_ID ban update]
    by (cases "track_channel_member CHANNEL_ID ban update") simp
  show ?case using Cons.IH by (simp add: d t)
qed

lemma handler_well_formed:
  assumes "changed_member update = Some result"
    and "chat result = Some c" and "chat_id c = CHANNEL_ID"
    and "old_chat_member result = Some old_member"
    and "new_chat_member result = Some new_member"
    and "user new_member = Some usr"
  shows "track_channel_member CHANNEL_ID ban update =
     (if is_bot usr then ([], None)
      else if status old_member \<in> {OWNER, ADMINISTRATOR, MEMBER}
      then ([Log ERROR (HandlerError (AttributeError ''KICKED'')) True], None)
      else if status old_member \<noteq> status new_member
      then ([Log INFO (StatusChange usr (status old_member) (status new_member)) False], None)
      else ([], None))"
  using assms
  by (simp add: track_channel_member_def logged_def track_body_def handle_record_def
      unsubscribed_eq)

text \<open>
  Claim C1 asks for one ban command when a user of the configured channel who is not a
  bot goes from owner, administrator or member to left or kicked. The code does not get
  that far. The old status makes the first operand at line 84 true, line 85 then looks
  up \<open>ChatMemberStatus.KICKED\<close> and raises \<open>AttributeError\<close>, and line 114 logs it: the
  trace is that one error record and holds no ban command, whatever the backend would
  have answered.
\<close>

theorem unsubscribe_raises_before_ban:
  assumes "changed_member update = Some result"
    and "chat result = Some c" and "chat_id c = CHANNEL_ID"
    and "old_chat_member result = Some old_member"
    and "new_chat_member result = Some new_member"
    and "user new_member = Some usr"
    and "\<not> is_bot usr"
    and "status old_member \<in> {OWNER, ADMINISTRATOR, MEMBER}"
    and "status new_member \<in> {LEFT, BANNED}"
  shows "track_channel_member CHANNEL_ID ban update =
           ([Log ERROR (HandlerError (AttributeError ''KICKED'')) True], None)
         \<and> ban_commands (fst (track_channel_member CHANNEL_ID ban update)) = []"
proof -
  have t: "track_channel_member CHANNEL_ID ban update =
        ([Log ERROR (HandlerError (AttributeError ''KICKED'')) True], None)"
    using handler_well_formed [OF assms(1-6)] assms(7,8) by simp
  show ?thesis
    by (simp add: t ban_commands_def)
qed

theorem unsubscribe_raises_before_ban_witness:
  "track_channel_member (- 1001) ban_succeeds
      (other_member (transition (- 1001) alice MEMBER LEFT)) =
     ([Log ERROR (HandlerError (AttributeError ''KICKED'')) True], None)
   \<and> ban_commands (fst (track_channel_member (- 1001) ban_succeeds
      (other_member (transition (- 1001) alice MEMBER LEFT)))) = []"
  using unsubscribe_raises_before_ban [of "other_member (transition (- 1001) alice MEMBER LEFT)"
      "transition (- 1001) alice MEMBER LEFT" "\<lparr>chat_id = - 1001\<rparr>" "- 1001"
      "\<lparr>status = MEMBER, user = Some alice\<rparr>" "\<lparr>status = LEFT, user = Some alice\<rparr>"
      alice ban_succeeds]
  by (simp add: changed_member_def other_member_def transition_def alice_def ban_commands_def)

text \<open>
  Claim C2. A notification whose chat is not the configured channel has no effect: no
  ban command and no log record. Nothing is assumed about the statuses, the bot flag or
  even the presence of the member objects, since the chat is compared before any of them
  is read.
\<close>

theorem foreign_chat_is_ignored:
  assumes "changed_member update = Some result"
    and "chat result = Some c" and "chat_id c \<noteq> CHANNEL_ID"
  shows "track_channel_member CHANNEL_ID ban update = ([], None)"
  using assms
  by (simp add: track_channel_member_def logged_def track_body_def handle_record_def)

theorem foreign_chat_is_ignored_witness:
  "track_channel_member (- 1001) ban_succeeds
      (other_member (transition (- 2002) alice MEMBER LEFT)) = ([], None)"
  using foreign_chat_is_ignored [of "other_member (transition (- 2002) alice MEMBER LEFT)"
      "transition (- 2002) alice MEMBER LEFT" "\<lparr>chat_id = - 2002\<rparr>" "- 1001" ban_succeeds]
  by (simp add: changed_member_def other_member_def transition_def)

text \<open>
  Claim C3. A notification from the configured channel about a bot has no effect, whatever
  the two statuses are.
\<close>

theorem bot_is_ignored:
  assumes "changed_member update = Some result"
    and "chat result = Some c" and "chat_id c = CHANNEL_ID"
    and "old_chat_member result = Some old_member"
    and "new_chat_member result = Some new_member"
    and "user new_member = Some usr"
    and "is_bot usr"
  shows "track_channel_member CHANNEL_ID ban update = ([], None)"
  using handler_well_formed [OF assms(1-6)] assms(7) by simp

theorem bot_is_ignored_witness:
  "track_channel_member (- 1001) ban_succeeds
      (other_member (transition (- 1001) robot MEMBER BANNED)) = ([], None)"
  using bot_is_ignored [of "other_member (transition (- 1001) robot MEMBER BANNED)"
      "transition (- 1001) robot MEMBER BANNED" "\<lparr>chat_id = - 1001\<rparr>" "- 1001"
      "\<lparr>status = MEMBER, user = Some robot\<rparr>" "\<lparr>status = BANNED, user = Some robot\<rparr>"
      robot ban_succeeds]
  by (simp add: changed_member_def other_member_def transition_def robot_def)

text \<open>
  Claim C8 asks for exactly one status-change record whenever the two statuses differ and
  are not a subscribed status followed by an unsubscribed one. The code does so only
  when the old status is not owner, administrator or member. When it is one of these
  (a member promoted to administrator, say), line 85 raises as for claim C1 and the
  trace is one error record instead. No ban command is issued in either case.
\<close>

theorem other_change_outcome:
  assumes "changed_member update = Some result"
    and "chat result = Some c" and "chat_id c = CHANNEL_ID"
    and "old_chat_member result = Some old_member"
    and "new_chat_member result = Some new_member"
    and "user new_member = Some usr"
    and "\<not> is_bot usr"
    and "status old_member \<noteq> status new_member"
    and "status old_member \<notin> {OWNER, ADMINISTRATOR, MEMBER}
         \<or> status new_member \<notin> {LEFT, BANNED}"
  shows "track_channel_member CHANNEL_ID ban update =
           (if status old_member \<in> {OWNER, ADMINISTRATOR, MEMBER}
            then ([Log ERROR (HandlerError (AttributeError ''KICKED'')) True], None)
            else ([Log INFO (StatusChange usr (status old_member) (status new_member)) False],
                  None))
         \<and> ban_commands (fst (track_channel_member CHANNEL_ID ban update)) = []"
proof -
  have t: "track_channel_member CHANNEL_ID ban update =
           (if status old_member \<in> {OWNER, ADMINISTRATOR, MEMBER}
            then ([Log ERROR (HandlerError (AttributeError ''KICKED'')) True], None)
            else ([Log INFO (StatusChange usr (status old_member) (status new_member)) False],
                  None))"
    using handler_well_formed [OF assms(1-6)] assms(7,8) by simp
  show ?thesis
    by (simp add: t ban_commands_def)
qed

theorem other_change_outcome_witness:
  "track_channel_member (- 1001) ban_succeeds
      (other_member (transition (- 1001) alice MEMBER ADMINISTRATOR)) =
     ([Log ERROR (HandlerError (AttributeError ''KICKED'')) True], None)
   \<and> track_channel_member (- 1001) ban_succeeds
      (other_member (transition (- 1001) alice RESTRICTED LEFT)) =
     ([Log INFO (StatusChange alice RESTRICTED LEFT) False], None)"
  using other_change_outcome [of "other_member (transition (- 1001) alice MEMBER ADMINISTRATOR)"
      "transition (- 1001) alice MEMBER ADMINISTRATOR" "\<lparr>chat_id = - 1001\<rparr>" "- 1001"
      "\<lparr>status = MEMBER, user = Some alice\<rparr>"
      "\<lparr>status = ADMINISTRATOR, user = Some alice\<rparr>" alice ban_succeeds]
    other_change_outcome [of "other_member (transition (- 1001) alice RESTRICTED LEFT)"
      "transition (- 1001) alice RESTRICTED LEFT" "\<lparr>chat_id = - 1001\<rparr>" "- 1001"
      "\<lparr>status = RESTRICTED, user = Some alice\<rparr>" "\<lparr>status = LEFT, user = Some alice\<rparr>"
      alice ban_succeeds]
  by (simp add: changed_member_def other_member_def transition_def alice_def)

text \<open>
  Claim C9 asks for no effect when the old status equals the new one. The code does so
  only when that status is not owner, administrator or member. When it is one of these
  (an administrator whose rights are changed, say), line 85 raises as for claim C1 and
  the trace is one error record.
\<close>

theorem no_change_outcome:
  assumes "changed_member update = Some result"
    and "chat result = Some c" and "chat_id c = CHANNEL_ID"
    and "old_chat_member result = Some old_member"
    and "new_chat_member result = Some new_member"
    and "user new_member = Some usr"
    and "\<not> is_bot usr"
    and "status old_member = status new_member"
  shows "track_channel_member CHANNEL_ID ban update =
           (if status old_member \<in> {OWNER, ADMINISTRATOR, MEMBER}
            then ([Log ERROR (HandlerError (AttributeError ''KICKED'')) True], None)
            else ([], None))"
  using handler_well_formed [OF assms(1-6)] assms(7,8) by simp

theorem no_change_outcome_witness:
  "track_channel_member (- 1001) ban_succeeds
      (other_member (transition (- 1001) alice ADMINISTRATOR ADMINISTRATOR)) =
     ([Log ERROR (HandlerError (AttributeError ''KICKED'')) True], None)
   \<and> track_channel_member (- 1001) ban_succeeds
      (other_member (transition (- 1001) alice LEFT LEFT)) = ([], None)"
  using no_change_outcome [of "other_member (transition (- 1001) alice ADMINISTRATOR ADMINISTRATOR)"
      "transition (- 1001) alice ADMINISTRATOR ADMINISTRATOR" "\<lparr>chat_id = - 1001\<rparr>" "- 1001"
      "\<lparr>status = ADMINISTRATOR, user = Some alice\<rparr>"
      "\<lparr>status = ADMINISTRATOR, user = Some alice\<rparr>" alice ban_succeeds]
    no_change_outcome [of "other_member (transition (- 1001) alice LEFT LEFT)"
      "transition (- 1001) alice LEFT LEFT" "\<lparr>chat_id = - 1001\<rparr>" "- 1001"
      "\<lparr>status = LEFT, user = Some alice\<rparr>" "\<lparr>status = LEFT, user = Some alice\<rparr>"
      alice ban_succeeds]
  by (simp add: changed_member_def other_member_def transition_def alice_def)

text \<open>
  Claim C10. When a notification carries both records, the handler picks
  \<open>my_chat_member\<close> and does with it what lines 69-115 do with a record; what stands in
  \<open>chat_member\<close> makes no difference.
\<close>

theorem own_member_record_wins:
  assumes "my_chat_member update = Some own"
    and "chat_member update = Some other"
  shows "changed_member update = Some own
         \<and> track_channel_member CHANNEL_ID ban update =
             logged (handle_record CHANNEL_ID ban own)
         \<and> track_channel_member CHANNEL_ID ban update =
             track_channel_member CHANNEL_ID ban (update\<lparr>chat_member := anything\<rparr>)"
  using assms by (simp add: changed_member_def track_channel_member_def track_body_def)

theorem own_member_record_wins_witness:
  "track_channel_member (- 1001) ban_succeeds
     \<lparr>my_chat_member = Some (transition (- 1001) alice LEFT MEMBER),
      chat_member = Some (transition (- 1001) alice RESTRICTED LEFT)\<rparr> =
     ([Log INFO (StatusChange alice LEFT MEMBER) False], None)"
  using own_member_record_wins [of "\<lparr>my_chat_member = Some (transition (- 1001) alice LEFT MEMBER),
      chat_member = Some (transition (- 1001) alice RESTRICTED LEFT)\<rparr>"
      "transition (- 1001) alice LEFT MEMBER"
      "transition (- 1001) alice RESTRICTED LEFT" "- 1001" ban_succeeds None]
  by (simp add: logged_def handle_record_def transition_def alice_def unsubscribed_def
      status_attr_def)




text \<open>
  Claim C7. Whatever exception the body of the outer \<open>try\<close> raises, the handler returns
  normally, and its trace is one error record that carries the exception with
  \<open>exc_info\<close> set. The loop goes on: the deliveries that follow are handled in turn and
  the loop ends without an exception. The example is a member leaving: the body raises
  at line 85, and the next delivery is handled as usual.
\<close>

theorem handler_fault_is_contained:
  assumes "track_body CHANNEL_ID ban update = (effects, Some e)"
  shows "track_channel_member CHANNEL_ID ban update =
           ([Log ERROR (HandlerError e) True], None)
         \<and> dispatch CHANNEL_ID ((ban, update) # rest) =
           (Log ERROR (HandlerError e) True
              # concat (map (\<lambda>(b, u). fst (track_channel_member CHANNEL_ID b u)) rest), None)"
proof -
  have "effects = []"
    using assms by (rule track_body_raise_no_effect)
  then have t: "track_channel_member CHANNEL_ID ban update =
      ([Log ERROR (HandlerError e) True], None)"
    using assms by (simp add: track_channel_member_def logged_def)
  show ?thesis
    by (simp add: t dispatch_all)
qed

theorem handler_fault_is_contained_witness:
  "track_body (- 1001) ban_succeeds (other_member (transition (- 1001) alice MEMBER LEFT)) =
     ([], Some (AttributeError ''KICKED''))
   \<and> dispatch (- 1001)
     [(ban_succeeds, other_member (transition (- 1001) alice MEMBER LEFT)),
      (ban_succeeds, other_member (transition (- 1001) alice RESTRICTED LEFT))] =
     ([Log ERROR (HandlerError (AttributeError ''KICKED'')) True,
       Log INFO (StatusChange alice RESTRICTED LEFT) False], None)"
  using handler_fault_is_contained [of "- 1001" ban_succeeds "other_member (transition (- 1001) alice MEMBER LEFT)"
      "[]" "AttributeError ''KICKED''"
      "[(ban_succeeds, other_member (transition (- 1001) alice RESTRICTED LEFT))]"]
  by (simp add: changed_member_def other_member_def transition_def alice_def
      track_channel_member_def logged_def track_body_def handle_record_def unsubscribed_def
      status_attr_def)

text \<open>
  Claim C5 fails as stated: the notification with no record attached is dropped at line 67
  without any log record.
\<close>

theorem missing_record_is_not_logged:
  "lacks_field no_member
   \<and> track_channel_member (- 1001) ban_succeeds no_member = ([], None)
   \<and> log_records (fst (track_channel_member (- 1001) ban_succeeds no_member)) = []"
  by (simp add: lacks_field_def no_member_def changed_member_def track_channel_member_def
      logged_def track_body_def log_records_def)

text \<open>
  Claim C5, as amended. A notification that lacks a required field never leads to a ban
  command and never raises out of the handler, and the loop goes on with the deliveries
  that follow. Whether it is logged depends on how far the handler reads. With no record
  attached, or with a record of another chat, the trace is empty. With a record whose
  chat is missing, or whose chat is the configured channel, the trace is the single error
  record of the \<open>AttributeError\<close> caught at line 114.
\<close>

theorem lacking_field_is_dropped:
  assumes "lacks_field update"
  shows "snd (track_channel_member CHANNEL_ID ban update) = None
         \<and> ban_commands (fst (track_channel_member CHANNEL_ID ban update)) = []
         \<and> (changed_member update = None \<longrightarrow>
              fst (track_channel_member CHANNEL_ID ban update) = [])
         \<and> (\<forall>r c. changed_member update = Some r \<and> chat r = Some c \<and> chat_id c \<noteq> CHANNEL_ID
              \<longrightarrow> fst (track_channel_member CHANNEL_ID ban update) = [])
         \<and> (\<forall>r. changed_member update = Some r \<and> chat r = None
              \<longrightarrow> fst (track_channel_member CHANNEL_ID ban update) =
                    [Log ERROR (HandlerError (AttributeError ''id'')) True])
         \<and> (\<forall>r c. changed_member update = Some r \<and> chat r = Some c \<and> chat_id c = CHANNEL_ID
              \<longrightarrow> (\<exists>a. fst (track_channel_member CHANNEL_ID ban update) =
                    [Log ERROR (HandlerError (AttributeError a)) True]))
         \<and> dispatch CHANNEL_ID ((ban, update) # rest) =
             (fst (track_channel_member CHANNEL_ID ban update)
                @ concat (map (\<lambda>(b, u). fst (track_channel_member CHANNEL_ID b u)) rest), None)"
proof -
  have a: "changed_member update = None \<longrightarrow>
      fst (track_channel_member CHANNEL_ID ban update) = []"
    by (simp add: track_channel_member_def logged_def track_body_def)
  have b: "\<forall>r c. changed_member update = Some r \<and> chat r = Some c \<and> chat_id c \<noteq> CHANNEL_ID
      \<longrightarrow> fst (track_channel_member CHANNEL_ID ban update) = []"
    by (simp add: track_channel_member_def logged_def track_body_def handle_record_def)
  have c: "\<forall>r. changed_member update = Some r \<and> chat r = None
      \<longrightarrow> fst (track_channel_member CHANNEL_ID ban update) =
            [Log ERROR (HandlerError (AttributeError ''id'')) True]"
    by (simp add: track_channel_member_def logged_def track_body_def handle_record_def)
  have d: "\<forall>r c. changed_member update = Some r \<and> chat r = Some c \<and> chat_id c = CHANNEL_ID
      \<longrightarrow> (\<exists>a. fst (track_channel_member CHANNEL_ID ban update) =
            [Log ERROR (HandlerError (AttributeError a)) True])"
    using assms
    by (auto simp: lacks_field_def complete_def track_channel_member_def logged_def
        track_body_def handle_record_def split: option.splits)
  have "fst (track_channel_member CHANNEL_ID ban update) = []
      \<or> (\<exists>a. fst (track_channel_member CHANNEL_ID ban update) =
            [Log ERROR (HandlerError (AttributeError a)) True])"
  proof (cases "changed_member update")
    case None
    then show ?thesis using a by simp
  next
    case (Some r)
    show ?thesis
    proof (cases "chat r")
      case None
      then show ?thesis using c Some by simp
    next
      case (Some ch)
      then show ?thesis using b d \<open>changed_member update = Some r\<close>
        by (cases "chat_id ch = CHANNEL_ID") auto
    qed
  qed
  then have e: "ban_commands (fst (track_channel_member CHANNEL_ID ban update)) = []"
    by (auto simp: ban_commands_def)
  show ?thesis
    using a b c d e by (simp add: track_channel_member_returns dispatch_all)
qed

theorem lacking_field_is_dropped_witness:
  "lacks_field no_member \<and> lacks_field (own_member no_chat)
   \<and> lacks_field (other_member (no_user (- 1001)))
   \<and> lacks_field (other_member (no_user (- 2002)))
   \<and> dispatch (- 1001)
     [(ban_succeeds, no_member),
      (ban_succeeds, other_member (transition (- 1001) alice RESTRICTED LEFT))] =
     ([Log INFO (StatusChange alice RESTRICTED LEFT) False], None)
   \<and> fst (track_channel_member (- 1001) ban_succeeds (own_member no_chat)) =
       [Log ERROR (HandlerError (AttributeError ''id'')) True]
   \<and> fst (track_channel_member (- 1001) ban_succeeds (other_member (no_user (- 1001)))) =
       [Log ERROR (HandlerError (AttributeError ''is_bot'')) True]
   \<and> fst (track_channel_member (- 1001) ban_succeeds (other_member (no_user (- 2002)))) = []"
  using lacking_field_is_dropped [of no_member "- 1001" ban_succeeds
      "[(ban_succeeds, other_member (transition (- 1001) alice RESTRICTED LEFT))]"]
    lacking_field_is_dropped [of "own_member no_chat" "- 1001" ban_succeeds "[]"]
    lacking_field_is_dropped [of "other_member (no_user (- 1001))" "- 1001" ban_succeeds "[]"]
    lacking_field_is_dropped [of "other_member (no_user (- 2002))" "- 1001" ban_succeeds "[]"]
  by (simp add: lacks_field_def complete_def changed_member_def other_member_def own_member_def
      no_member_def no_chat_def no_user_def transition_def alice_def
      track_channel_member_def logged_def track_body_def handle_record_def unsubscribed_def
      status_attr_def)

text \<open>
  Claim C6. When \<open>BOT_TOKEN\<close> or \<open>CHANNEL_ID\<close> is absent (not set, or empty: Python's
  \<open>not\<close>), or \<open>int\<close> rejects \<open>CHANNEL_ID\<close>, lines 40-46 raise \<open>ValueError\<close>; then nothing is
  logged and no delivery is handled. When the token is given and \<open>int\<close> reads
  \<open>CHANNEL_ID\<close> as \<open>n\<close>, the configuration is the token and \<open>n\<close>, and \<open>main\<close> enters the
  loop for the channel \<open>n\<close>.
\<close>

theorem startup_configuration:
  "(falsy BOT_TOKEN \<or> falsy CHANNEL_ID
      \<or> (\<exists>s. CHANNEL_ID = Some s \<and> parse_int s = None)
    \<longrightarrow> (\<exists>m. load_config parse_int BOT_TOKEN CHANNEL_ID = Inl (ValueError m)
           \<and> program parse_int BOT_TOKEN CHANNEL_ID deliveries = ([], Some (ValueError m))))
   \<and> (\<not> falsy BOT_TOKEN \<and> (\<exists>s. CHANNEL_ID = Some s \<and> s \<noteq> [] \<and> parse_int s = Some n)
    \<longrightarrow> (\<exists>token. BOT_TOKEN = Some token
           \<and> load_config parse_int BOT_TOKEN CHANNEL_ID = Inr (token, n))
        \<and> program parse_int BOT_TOKEN CHANNEL_ID deliveries =
            ([Log INFO Starting False, Log INFO (Monitoring n) False, Log INFO Started False]
               @ concat (map (\<lambda>(b, u). fst (track_channel_member n b u)) deliveries), None))"
  by (auto simp: falsy_def load_config_def program_def main_def dispatch_all
      split: option.splits)

theorem startup_configuration_witness:
  "program decimal None (Some ''-1001234567890'') [(ban_succeeds, no_member)] =
     ([], Some (ValueError ''BOT_TOKEN and CHANNEL_ID must be given in .env''))
   \<and> program decimal (Some ''123:abc'') (Some ''channel'') [(ban_succeeds, no_member)] =
     ([], Some (ValueError ''CHANNEL_ID must be a number''))
   \<and> program decimal (Some ''123:abc'') (Some ''-1001234567890'') [(ban_succeeds, no_member)] =
     ([Log INFO Starting False, Log INFO (Monitoring (- 1001234567890)) False,
       Log INFO Started False], None)"
  using startup_configuration [of None "Some ''-1001234567890''" decimal "[(ban_succeeds, no_member)]" 0]
    startup_configuration [of "Some ''123:abc''" "Some ''channel''" decimal "[(ban_succeeds, no_member)]" 0]
    startup_configuration [of "Some ''123:abc''" "Some ''-1001234567890''" decimal "[(ban_succeeds, no_member)]"
      "- 1001234567890"]
  by (simp add: falsy_def load_config_def program_def main_def
      decimal_def unsigned_def digit_val_def
      no_member_def changed_member_def track_channel_member_def logged_def track_body_def)

end
